theory Spec2Isabelle
  imports Main
begin

section \<open>The users service of \<open>src/app/main.py\<close>\<close>

text \<open>
  The program is a FastAPI application with five routes over one PostgreSQL table
  \<open>users\<close>. The handlers are modelled as functions that take the request's database
  session and return the outcome (a value, or the exception that left the handler) with
  the session as it is afterwards. The three libraries the handlers call are modelled as
  far as the handlers use them:
  \<^item> SQLAlchemy 2.x (\<open>async_sessionmaker\<close>, imported in line 6, exists from 2.0 on): the
    session with its unit of work, \<open>execute\<close>, \<open>commit\<close>, \<open>rollback\<close>, \<open>refresh\<close>;
  \<^item> pydantic 2.x (\<open>ConfigDict\<close>, line 5): the validation of \<open>UserCreate\<close>, \<open>UserResponse\<close>
    and of the \<open>int\<close> path parameter;
  \<^item> FastAPI: the validation of a request before the handler is called, and the
    conversion of an exception into a response.
  Two checks of pydantic are parameters of the model, because they are decided by code
  outside the repository: the address syntax of \<open>EmailStr\<close>, with the reason it gives
  for a text it rejects, and the parsing of a path segment as an \<open>int\<close>. The model starts
  at the router: the host check and the logging middleware are left out. A text is a
  sequence of characters in UTF-8. Ids are mathematical integers, as Python's are.
\<close>

subsection \<open>Data model\<close>

text \<open>A row of the table \<open>users\<close>; also what \<open>fetchone\<close> returns (an immutable \<open>Row\<close>).\<close>

record Row =
  Row_id :: int
  Row_name :: string
  Row_email :: string

text \<open>An instance of the mapped class \<open>User\<close>; \<open>id\<close> is \<open>None\<close> until the insert.\<close>

record User =
  User_id :: "int option"
  User_name :: string
  User_email :: string

record UserCreate =
  UserCreate_name :: string
  UserCreate_email :: string

record UserResponse =
  UserResponse_id :: int
  UserResponse_name :: string
  UserResponse_email :: string

text \<open>
  The database: the table in storage order, and the sequence behind the \<open>id\<close> column
  (\<open>Integer, primary_key=True\<close> is a serial column on PostgreSQL).
\<close>

record database =
  users :: "Row list"
  users_id_seq :: int

datatype exn =
    HTTPException int string
  | ArgumentError
  | AttributeError
  | UnmappedInstanceError
  | InvalidRequestError
  | IntegrityError
  | ProgrammingError
  | ResponseValidationError
  | TypeError
  | ValueError

subsection \<open>The session\<close>

text \<open>
  \<open>store\<close> is the committed database, \<open>tx_users\<close> the table as the open transaction sees
  it, \<open>instances\<close> the objects attached to the session; an object is referred to by its
  position in that list. No handler calls \<open>execute\<close> while an instance is pending, so the
  flush before a query is left out.
\<close>

record session =
  store :: database
  tx_users :: "Row list"
  instances :: "User list"

definition get_session :: "database \<Rightarrow> session" where
  "get_session db = \<lparr>store = db, tx_users = users db, instances = []\<rparr>"

text \<open>A statement is a plain \<open>str\<close> or a \<open>text(...)\<close> construct.\<close>

datatype statement = Str string | TextClause string

definition text_sql :: "string \<Rightarrow> statement" where
  "text_sql s = TextClause s"

definition digit_char :: "nat \<Rightarrow> char" where
  "digit_char d = char_of (48 + d)"

fun str_nat :: "nat \<Rightarrow> string" where
  "str_nat n = (if n < 10 then [digit_char n] else str_nat (n div 10) @ [digit_char (n mod 10)])"

declare str_nat.simps [simp del]

definition str_int :: "int \<Rightarrow> string" where
  "str_int i = (if i < 0 then CHR ''-'' # str_nat (nat (- i)) else str_nat (nat i))"

text \<open>
  What PostgreSQL does with the three statements of the program, on the transaction's
  view of the table: the rows returned and the table afterwards.
\<close>

definition run_sql :: "string \<Rightarrow> (string \<times> int) list \<Rightarrow> Row list \<Rightarrow> exn + Row list \<times> Row list" where
  "run_sql sql params rows =
     (if sql = ''SELECT * FROM users'' then Inr (rows, rows)
      else if sql = ''SELECT * FROM users WHERE id = :id'' then
        (case map_of params ''id'' of
           None \<Rightarrow> Inl InvalidRequestError
         | Some i \<Rightarrow> Inr (filter (\<lambda>r. Row_id r = i) rows, rows))
      else if sql = ''DELETE FROM users WHERE id = :id'' then
        (case map_of params ''id'' of
           None \<Rightarrow> Inl InvalidRequestError
         | Some i \<Rightarrow> Inr ([], filter (\<lambda>r. Row_id r \<noteq> i) rows))
      else Inl ProgrammingError)"

text \<open>
  \<open>Session.execute\<close>. SQLAlchemy 2.x accepts no plain string as a statement (the
  coercion of a string to \<open>text(...)\<close>, deprecated in 1.4, is gone in 2.0): it raises
  \<open>ArgumentError\<close>, a textual SQL expression has to be declared as \<open>text(...)\<close>, before
  anything is sent to the database. A \<open>text(...)\<close> construct is run on the transaction's
  view of the table.
\<close>

definition session_execute ::
  "statement \<Rightarrow> (string \<times> int) list \<Rightarrow> session \<Rightarrow> (exn + Row list) \<times> session" where
  "session_execute stmt params s =
     (case stmt of
        Str _ \<Rightarrow> (Inl ArgumentError, s)
      | TextClause sql \<Rightarrow>
          (case run_sql sql params (tx_users s) of
             Inl e \<Rightarrow> (Inl e, s)
           | Inr (result, rows') \<Rightarrow> (Inr result, s\<lparr>tx_users := rows'\<rparr>)))"

definition fetchone :: "Row list \<Rightarrow> Row option" where
  "fetchone result = (case result of [] \<Rightarrow> None | r # _ \<Rightarrow> Some r)"

definition fetchall :: "Row list \<Rightarrow> Row list" where
  "fetchall result = result"

text \<open>A \<open>Row\<close> is immutable: assigning to an attribute raises \<open>AttributeError\<close>.\<close>

definition Row_setattr :: "Row \<Rightarrow> string \<Rightarrow> string \<Rightarrow> exn + Row" where
  "Row_setattr r attr v = Inl AttributeError"

text \<open>\<open>session.add\<close> of a mapped instance; the result is the reference to it.\<close>

definition session_add :: "User \<Rightarrow> session \<Rightarrow> nat \<times> session" where
  "session_add obj s = (length (instances s), s\<lparr>instances := instances s @ [obj]\<rparr>)"

text \<open>\<open>session.add\<close> of a \<open>Row\<close>, which is no mapped instance.\<close>

definition session_add_Row :: "Row \<Rightarrow> session \<Rightarrow> (exn + unit) \<times> session" where
  "session_add_Row r s = (Inl UnmappedInstanceError, s)"

text \<open>
  The insert of one pending instance: the id is taken from the sequence, which advances
  whether or not the insert succeeds; the primary key and the unique constraint on
  \<open>email\<close> are checked.
\<close>

definition INSERT_users :: "string \<Rightarrow> string \<Rightarrow> Row list \<Rightarrow> int \<Rightarrow> (exn + Row) \<times> int" where
  "INSERT_users n e rows seq =
     (if seq \<in> set (map Row_id rows) \<or> e \<in> set (map Row_email rows)
      then (Inl IntegrityError, seq + 1)
      else (Inr \<lparr>Row_id = seq, Row_name = n, Row_email = e\<rparr>, seq + 1))"

text \<open>The flush: every instance without an id is inserted, in the order of \<open>add\<close>.\<close>

fun flush :: "User list \<Rightarrow> Row list \<Rightarrow> int \<Rightarrow> (exn + User list \<times> Row list) \<times> int" where
  "flush [] rows seq = (Inr ([], rows), seq)"
| "flush (u # us) rows seq =
     (case User_id u of
        Some _ \<Rightarrow>
          (case flush us rows seq of
             (Inl e, seq') \<Rightarrow> (Inl e, seq')
           | (Inr (us', rows'), seq') \<Rightarrow> (Inr (u # us', rows'), seq'))
      | None \<Rightarrow>
          (case INSERT_users (User_name u) (User_email u) rows seq of
             (Inl e, seq') \<Rightarrow> (Inl e, seq')
           | (Inr r, seq') \<Rightarrow>
               (case flush us (rows @ [r]) seq' of
                  (Inl e, seq'') \<Rightarrow> (Inl e, seq'')
                | (Inr (us', rows'), seq'') \<Rightarrow>
                    (Inr (u\<lparr>User_id := Some (Row_id r)\<rparr> # us', rows'), seq''))))"

definition session_commit :: "session \<Rightarrow> (exn + unit) \<times> session" where
  "session_commit s =
     (case flush (instances s) (tx_users s) (users_id_seq (store s)) of
        (Inl e, seq') \<Rightarrow> (Inl e, s\<lparr>store := (store s)\<lparr>users_id_seq := seq'\<rparr>\<rparr>)
      | (Inr (objs, rows'), seq') \<Rightarrow>
          (Inr (), s\<lparr>store := \<lparr>users = rows', users_id_seq = seq'\<rparr>,
                     tx_users := rows', instances := objs\<rparr>))"

definition session_rollback :: "session \<Rightarrow> session" where
  "session_rollback s = s\<lparr>tx_users := users (store s), instances := []\<rparr>"

text \<open>\<open>session.refresh\<close>: the instance's attributes are read again by primary key.\<close>

definition session_refresh :: "nat \<Rightarrow> session \<Rightarrow> (exn + User) \<times> session" where
  "session_refresh h s =
     (if h < length (instances s) then
        (case User_id (instances s ! h) of
           None \<Rightarrow> (Inl InvalidRequestError, s)
         | Some i \<Rightarrow>
             (case filter (\<lambda>r. Row_id r = i) (tx_users s) of
                [] \<Rightarrow> (Inl InvalidRequestError, s)
              | r # _ \<Rightarrow>
                  (let obj = \<lparr>User_id = Some (Row_id r), User_name = Row_name r,
                              User_email = Row_email r\<rparr>
                   in (Inr obj, s\<lparr>instances := (instances s)[h := obj]\<rparr>))))
      else (Inl InvalidRequestError, s))"

text \<open>\<open>session.refresh\<close> of a \<open>Row\<close>, which is no mapped instance.\<close>

definition session_refresh_Row :: "Row \<Rightarrow> session \<Rightarrow> (exn + Row) \<times> session" where
  "session_refresh_Row r s = (Inl UnmappedInstanceError, s)"

text \<open>The end of \<open>async with async_session()\<close>: what is not committed is lost.\<close>

definition session_close :: "session \<Rightarrow> database" where
  "session_close s = store s"

subsection \<open>The handlers\<close>

definition create_user :: "UserCreate \<Rightarrow> session \<Rightarrow> (exn + User) \<times> session" where
  "create_user user s =
     (let new_user = \<lparr>User_id = None, User_name = UserCreate_name user,
                       User_email = UserCreate_email user\<rparr>;
          (h, s1) = session_add new_user s
      in case session_commit s1 of
           (Inl e, s2) \<Rightarrow> (Inl (HTTPException 400 ''Error creating user''), session_rollback s2)
         | (Inr _, s2) \<Rightarrow>
             (case session_refresh h s2 of
                (Inl e, s3) \<Rightarrow>
                  (Inl (HTTPException 400 ''Error creating user''), session_rollback s3)
              | (Inr obj, s3) \<Rightarrow> (Inr obj, s3)))"

definition get_users :: "session \<Rightarrow> (exn + Row list) \<times> session" where
  "get_users s =
     (case session_execute (text_sql ''SELECT * FROM users'') [] s of
        (Inl e, s1) \<Rightarrow> (Inl e, s1)
      | (Inr result, s1) \<Rightarrow> (Inr (fetchall result), s1))"

definition get_user :: "int \<Rightarrow> session \<Rightarrow> (exn + Row) \<times> session" where
  "get_user i s =
     (case session_execute (Str (''SELECT * FROM users WHERE id = '' @ str_int i)) [] s of
        (Inl e, s1) \<Rightarrow> (Inl e, s1)
      | (Inr result, s1) \<Rightarrow>
          (case fetchone result of
             None \<Rightarrow> (Inl (HTTPException 404 ''User not found''), s1)
           | Some user \<Rightarrow> (Inr user, s1)))"

text \<open>
  Lines 105 to 114 of \<open>update_user\<close>, the statements that follow once the lookup has
  found a row: \<open>existing_user\<close> is the \<open>Row\<close> that \<open>fetchone\<close> returned.
\<close>

definition update_user_found :: "Row \<Rightarrow> UserCreate \<Rightarrow> session \<Rightarrow> (exn + Row) \<times> session" where
  "update_user_found existing_user user s1 =
     (case Row_setattr existing_user ''name'' (UserCreate_name user) of
        Inl e \<Rightarrow> (Inl e, s1)
      | Inr r1 \<Rightarrow>
          (case Row_setattr r1 ''email'' (UserCreate_email user) of
             Inl e \<Rightarrow> (Inl e, s1)
           | Inr r2 \<Rightarrow>
               (case session_add_Row r2 s1 of
                  (Inl e, s2) \<Rightarrow> (Inl e, s2)
                | (Inr _, s2) \<Rightarrow>
                    (case session_commit s2 of
                       (Inl e, s3) \<Rightarrow>
                         (Inl (HTTPException 400 ''Error updating user''), session_rollback s3)
                     | (Inr _, s3) \<Rightarrow>
                         (case session_refresh_Row r2 s3 of
                            (Inl e, s4) \<Rightarrow>
                              (Inl (HTTPException 400 ''Error updating user''),
                               session_rollback s4)
                          | (Inr r3, s4) \<Rightarrow> (Inr r3, s4))))))"

definition update_user :: "int \<Rightarrow> UserCreate \<Rightarrow> session \<Rightarrow> (exn + Row) \<times> session" where
  "update_user i user s =
     (case session_execute (Str (''SELECT * FROM users WHERE id = '' @ str_int i)) [] s of
        (Inl e, s1) \<Rightarrow> (Inl e, s1)
      | (Inr result, s1) \<Rightarrow>
          (case fetchone result of
             None \<Rightarrow> (Inl (HTTPException 404 ''User not found''), s1)
           | Some existing_user \<Rightarrow> update_user_found existing_user user s1))"

definition delete_user :: "int \<Rightarrow> session \<Rightarrow> (exn + (string \<times> string) list) \<times> session" where
  "delete_user i s =
     (case session_execute (text_sql ''SELECT * FROM users WHERE id = :id'') [(''id'', i)] s of
        (Inl e, s1) \<Rightarrow> (Inl e, s1)
      | (Inr result, s1) \<Rightarrow>
          (case fetchone result of
             None \<Rightarrow> (Inl (HTTPException 404 ''User not found''), s1)
           | Some user \<Rightarrow>
               (case session_execute (text_sql ''DELETE FROM users WHERE id = :id'')
                       [(''id'', i)] s1 of
                  (Inl e, s2) \<Rightarrow> (Inl e, s2)
                | (Inr _, s2) \<Rightarrow>
                    (case session_commit s2 of
                       (Inl e, s3) \<Rightarrow>
                         (Inl (HTTPException 400 ''Error deleting user''), session_rollback s3)
                     | (Inr _, s3) \<Rightarrow>
                         (Inr [(''message'', ''User deleted successfully'')], s3)))))"

subsection \<open>Requests and responses\<close>

text \<open>
  A value as \<open>json.loads\<close> builds it, or as it stands in a JSON document: numbers are
  integers or floats (\<open>JFloat m e\<close> is the finite float \<open>m * 2 ^ e\<close>), and Python's decoder
  also accepts the tokens \<open>NaN\<close>, \<open>Infinity\<close> and \<open>-Infinity\<close>. \<open>JBytes\<close> is a \<open>bytes\<close>
  object: no document holds one, it is what FastAPI keeps of a body that was not sent
  as JSON. The members of an object in a document may repeat a key.
\<close>

datatype json =
    JNull
  | JBool bool
  | JNumber int
  | JFloat int int
  | JNaN
  | JInfinity
  | JMinusInfinity
  | JString string
  | JBytes string
  | JArray "json list"
  | JObject "(string \<times> json) list"

text \<open>
  The body of a request: empty; a text sent as JSON that is no JSON document (with the
  position where decoding failed and the decoder's message); a JSON document; or bytes
  sent with a content type that is not JSON (a form, a plain text).
\<close>

datatype body = NoBody | InvalidJSON string int string | JSON json | NonJSON string

datatype request =
    POST_users body
  | GET_users
  | GET_users_id string
  | PUT_users_id string body
  | DELETE_users_id string

datatype response = JSONResponse int json | PlainTextResponse int string


text \<open>
  One entry of \<open>exc.errors()\<close>: the kind of problem, where it is, the message, the input,
  and the context where pydantic gives one.
\<close>

record error_item =
  err_type :: string
  err_loc :: "json list"
  err_msg :: string
  err_input :: json
  err_ctx :: "(string \<times> json) list option"

record RequestValidationError =
  exc_errors :: "error_item list"
  exc_body :: json

text \<open>
  The checks that are parameters of the model: the address that \<open>EmailStr\<close> makes of a
  text, the reason it gives for a text it rejects, and the \<open>int\<close> of a path segment.
\<close>

record pydantic =
  EmailStr :: "string \<Rightarrow> string option"
  EmailStr_reason :: "string \<Rightarrow> string"
  int_parsing :: "string \<Rightarrow> int option"

subsection \<open>Decoding and rendering JSON\<close>

text \<open>
  \<open>json.loads\<close> builds a \<open>dict\<close> from an object: a key that comes again keeps its place
  and takes the new value.
\<close>

definition dict_set :: "(string \<times> json) list \<Rightarrow> string \<Rightarrow> json \<Rightarrow> (string \<times> json) list" where
  "dict_set d k v =
     (if k \<in> set (map fst d) then map (\<lambda>(k', v'). if k' = k then (k', v) else (k', v')) d
      else d @ [(k, v)])"

definition dict_of :: "(string \<times> json) list \<Rightarrow> (string \<times> json) list" where
  "dict_of members = foldl (\<lambda>d (k, v). dict_set d k v) [] members"

primrec json_loads :: "json \<Rightarrow> json" where
  "json_loads JNull = JNull"
| "json_loads (JBool b) = JBool b"
| "json_loads (JNumber n) = JNumber n"
| "json_loads (JFloat m e) = JFloat m e"
| "json_loads JNaN = JNaN"
| "json_loads JInfinity = JInfinity"
| "json_loads JMinusInfinity = JMinusInfinity"
| "json_loads (JString s) = JString s"
| "json_loads (JBytes b) = JBytes b"
| "json_loads (JArray xs) = JArray (map json_loads xs)"
| "json_loads (JObject members) = JObject (dict_of (map (map_prod id json_loads) members))"

text \<open>
  \<open>json.dumps(content, allow_nan=False)\<close>, as \<open>JSONResponse\<close> calls it: the exception it
  raises, if any. A float that is not finite raises \<open>ValueError\<close>, a \<open>bytes\<close> object
  \<open>TypeError\<close>.
\<close>

fun first_error :: "exn option list \<Rightarrow> exn option" where
  "first_error [] = None"
| "first_error (Some e # _) = Some e"
| "first_error (None # rest) = first_error rest"

primrec dumps_error :: "json \<Rightarrow> exn option" where
  "dumps_error JNull = None"
| "dumps_error (JBool b) = None"
| "dumps_error (JNumber n) = None"
| "dumps_error (JFloat m e) = None"
| "dumps_error JNaN = Some ValueError"
| "dumps_error JInfinity = Some ValueError"
| "dumps_error JMinusInfinity = Some ValueError"
| "dumps_error (JString s) = None"
| "dumps_error (JBytes b) = Some TypeError"
| "dumps_error (JArray xs) = first_error (map dumps_error xs)"
| "dumps_error (JObject members) = first_error (map snd (map (map_prod id dumps_error) members))"

text \<open>\<open>JSONResponse(status_code=..., content=...)\<close>: the content is rendered at once.\<close>

definition new_JSONResponse :: "int \<Rightarrow> json \<Rightarrow> exn + response" where
  "new_JSONResponse status content =
     (case dumps_error content of
        Some e \<Rightarrow> Inl e
      | None \<Rightarrow> Inr (JSONResponse status content))"

subsection \<open>Validation\<close>

text \<open>The lookup in a \<open>dict\<close>; on the members of a document, the last of equal keys.\<close>

definition dict_get :: "(string \<times> json) list \<Rightarrow> string \<Rightarrow> json option" where
  "dict_get members k = map_of (rev members) k"

definition errors_of :: "error_item list + 'a \<Rightarrow> error_item list" where
  "errors_of r = (case r of Inl es \<Rightarrow> es | Inr _ \<Rightarrow> [])"

definition missing_error :: "json list \<Rightarrow> json \<Rightarrow> error_item" where
  "missing_error loc obj =
     \<lparr>err_type = ''missing'', err_loc = loc, err_msg = ''Field required'', err_input = obj,
      err_ctx = None\<rparr>"

definition string_type_error :: "json list \<Rightarrow> json \<Rightarrow> error_item" where
  "string_type_error loc x =
     \<lparr>err_type = ''string_type'', err_loc = loc, err_msg = ''Input should be a valid string'',
      err_input = x, err_ctx = None\<rparr>"

definition validate_str :: "json list \<Rightarrow> json \<Rightarrow> json option \<Rightarrow> error_item list + string" where
  "validate_str loc obj v =
     (case v of
        None \<Rightarrow> Inl [missing_error loc obj]
      | Some (JString s) \<Rightarrow> Inr s
      | Some x \<Rightarrow> Inl [string_type_error loc x])"

definition validate_EmailStr ::
  "pydantic \<Rightarrow> json list \<Rightarrow> json \<Rightarrow> json option \<Rightarrow> error_item list + string" where
  "validate_EmailStr L loc obj v =
     (case v of
        None \<Rightarrow> Inl [missing_error loc obj]
      | Some (JString s) \<Rightarrow>
          (case EmailStr L s of
             None \<Rightarrow>
               Inl [\<lparr>err_type = ''value_error'', err_loc = loc,
                     err_msg = ''value is not a valid email address: '' @ EmailStr_reason L s,
                     err_input = JString s,
                     err_ctx = Some [(''reason'', JString (EmailStr_reason L s))]\<rparr>]
           | Some e \<Rightarrow> Inr e)
      | Some x \<Rightarrow> Inl [string_type_error loc x])"

text \<open>
  The validation of \<open>UserCreate\<close> (\<open>name: str\<close>, \<open>email: EmailStr\<close>): every field is
  validated and the errors of all fields are collected.
\<close>

definition validate_UserCreate :: "pydantic \<Rightarrow> json list \<Rightarrow> json \<Rightarrow> error_item list + UserCreate" where
  "validate_UserCreate L loc v =
     (case v of
        JObject members \<Rightarrow>
          (let n = validate_str (loc @ [JString ''name'']) v (dict_get members ''name'');
               e = validate_EmailStr L (loc @ [JString ''email'']) v (dict_get members ''email'')
           in case (n, e) of
                (Inr name, Inr email) \<Rightarrow>
                  Inr \<lparr>UserCreate_name = name, UserCreate_email = email\<rparr>
              | _ \<Rightarrow> Inl (errors_of n @ errors_of e))
      | _ \<Rightarrow>
          Inl [\<lparr>err_type = ''model_attributes_type'', err_loc = loc,
                err_msg = ''Input should be a valid dictionary or object to extract fields from'',
                err_input = v, err_ctx = None\<rparr>])"

text \<open>The path parameter \<open>id: int\<close>.\<close>

definition validate_path_id :: "pydantic \<Rightarrow> string \<Rightarrow> error_item list + int" where
  "validate_path_id L seg =
     (case int_parsing L seg of
        None \<Rightarrow>
          Inl [\<lparr>err_type = ''int_parsing'', err_loc = [JString ''path'', JString ''id''],
                err_msg = ''Input should be a valid integer, unable to parse string as an integer'',
                err_input = JString seg, err_ctx = None\<rparr>]
      | Some i \<Rightarrow> Inr i)"

text \<open>
  Reading the body of a route that has a body parameter: a body sent as JSON is decoded,
  any other body that is not empty is kept as \<open>bytes\<close>.
\<close>

definition read_body :: "body \<Rightarrow> RequestValidationError + json option" where
  "read_body b =
     (case b of
        NoBody \<Rightarrow> Inr None
      | InvalidJSON doc pos msg \<Rightarrow>
          Inl \<lparr>exc_errors = [\<lparr>err_type = ''json_invalid'',
                               err_loc = [JString ''body'', JNumber pos],
                               err_msg = ''JSON decode error'',
                               err_input = JObject [],
                               err_ctx = Some [(''error'', JString msg)]\<rparr>],
               exc_body = JString doc\<rparr>
      | JSON v \<Rightarrow> Inr (Some (json_loads v))
      | NonJSON bs \<Rightarrow> Inr (if bs = [] then None else Some (JBytes bs)))"

definition body_to_args :: "pydantic \<Rightarrow> json option \<Rightarrow> error_item list + UserCreate" where
  "body_to_args L received =
     (case received of
        None \<Rightarrow> Inl [missing_error [JString ''body''] JNull]
      | Some v \<Rightarrow> validate_UserCreate L [JString ''body''] v)"

text \<open>The body that the exception carries: what was read, \<open>None\<close> when nothing was.\<close>

definition received_json :: "json option \<Rightarrow> json" where
  "received_json received = (case received of None \<Rightarrow> JNull | Some v \<Rightarrow> v)"

text \<open>A handler with the arguments it is called with.\<close>

datatype call =
    Call_create_user UserCreate
  | Call_get_users
  | Call_get_user int
  | Call_update_user int UserCreate
  | Call_delete_user int

text \<open>
  What FastAPI does before it calls the handler: the body is read, then the path
  parameter and the body are validated and the errors of both are collected.
\<close>

definition solve_dependencies :: "pydantic \<Rightarrow> request \<Rightarrow> RequestValidationError + call" where
  "solve_dependencies L req =
     (case req of
        POST_users b \<Rightarrow>
          (case read_body b of
             Inl exc \<Rightarrow> Inl exc
           | Inr received \<Rightarrow>
               (case body_to_args L received of
                  Inl es \<Rightarrow> Inl \<lparr>exc_errors = es, exc_body = received_json received\<rparr>
                | Inr user \<Rightarrow> Inr (Call_create_user user)))
      | GET_users \<Rightarrow> Inr Call_get_users
      | GET_users_id seg \<Rightarrow>
          (case validate_path_id L seg of
             Inl es \<Rightarrow> Inl \<lparr>exc_errors = es, exc_body = JNull\<rparr>
           | Inr i \<Rightarrow> Inr (Call_get_user i))
      | PUT_users_id seg b \<Rightarrow>
          (case read_body b of
             Inl exc \<Rightarrow> Inl exc
           | Inr received \<Rightarrow>
               (let p = validate_path_id L seg; u = body_to_args L received
                in case (p, u) of
                     (Inr i, Inr user) \<Rightarrow> Inr (Call_update_user i user)
                   | _ \<Rightarrow> Inl \<lparr>exc_errors = errors_of p @ errors_of u,
                               exc_body = received_json received\<rparr>))
      | DELETE_users_id seg \<Rightarrow>
          (case validate_path_id L seg of
             Inl es \<Rightarrow> Inl \<lparr>exc_errors = es, exc_body = JNull\<rparr>
           | Inr i \<Rightarrow> Inr (Call_delete_user i)))"

subsection \<open>Responses\<close>

text \<open>An entry of \<open>exc.errors()\<close> as the \<open>dict\<close> it is; \<open>ctx\<close> is there when it is given.\<close>

definition error_json :: "error_item \<Rightarrow> json" where
  "error_json er =
     JObject ([(''type'', JString (err_type er)), (''loc'', JArray (err_loc er)),
               (''msg'', JString (err_msg er)), (''input'', err_input er)] @
              (case err_ctx er of None \<Rightarrow> [] | Some c \<Rightarrow> [(''ctx'', JObject c)]))"

text \<open>
  Lines 62 to 67: the errors and the body go into the \<open>JSONResponse\<close> as they are, so the
  handler raises where they cannot be rendered.
\<close>

definition validation_exception_handler :: "RequestValidationError \<Rightarrow> exn + response" where
  "validation_exception_handler exc =
     new_JSONResponse 400
       (JObject [(''detail'', JArray (map error_json (exc_errors exc))),
                 (''body'', exc_body exc)])"

text \<open>
  An \<open>HTTPException\<close> becomes a response with its status and detail; any other exception
  that leaves a handler, or the handler of the validation errors, becomes the server's
  answer 500.
\<close>

definition exception_response :: "exn \<Rightarrow> response" where
  "exception_response e =
     (case e of
        HTTPException c d \<Rightarrow> JSONResponse c (JObject [(''detail'', JString d)])
      | _ \<Rightarrow> PlainTextResponse 500 ''Internal Server Error'')"

text \<open>
  \<open>response_model=UserResponse\<close>: the returned object's attributes are validated as
  \<open>id: int\<close>, \<open>name: str\<close>, \<open>email: EmailStr\<close>.
\<close>

definition validate_UserResponse ::
  "pydantic \<Rightarrow> int option \<Rightarrow> string \<Rightarrow> string \<Rightarrow> exn + UserResponse" where
  "validate_UserResponse L i n e =
     (case i of
        None \<Rightarrow> Inl ResponseValidationError
      | Some k \<Rightarrow>
          (case EmailStr L e of
             None \<Rightarrow> Inl ResponseValidationError
           | Some e' \<Rightarrow>
               Inr \<lparr>UserResponse_id = k, UserResponse_name = n, UserResponse_email = e'\<rparr>))"

definition UserResponse_json :: "UserResponse \<Rightarrow> json" where
  "UserResponse_json r =
     JObject [(''id'', JNumber (UserResponse_id r)), (''name'', JString (UserResponse_name r)),
              (''email'', JString (UserResponse_email r))]"

definition serialize_User :: "pydantic \<Rightarrow> User \<Rightarrow> exn + json" where
  "serialize_User L u =
     (case validate_UserResponse L (User_id u) (User_name u) (User_email u) of
        Inl e \<Rightarrow> Inl e
      | Inr r \<Rightarrow> Inr (UserResponse_json r))"

definition serialize_Row :: "pydantic \<Rightarrow> Row \<Rightarrow> exn + json" where
  "serialize_Row L r =
     (case validate_UserResponse L (Some (Row_id r)) (Row_name r) (Row_email r) of
        Inl e \<Rightarrow> Inl e
      | Inr u \<Rightarrow> Inr (UserResponse_json u))"

fun serialize_Rows :: "pydantic \<Rightarrow> Row list \<Rightarrow> exn + json list" where
  "serialize_Rows L [] = Inr []"
| "serialize_Rows L (r # rs) =
     (case serialize_Row L r of
        Inl e \<Rightarrow> Inl e
      | Inr j \<Rightarrow> (case serialize_Rows L rs of Inl e \<Rightarrow> Inl e | Inr js \<Rightarrow> Inr (j # js)))"

definition serialize_dict :: "(string \<times> string) list \<Rightarrow> exn + json" where
  "serialize_dict d = Inr (JObject (map (\<lambda>(k, v). (k, JString v)) d))"

subsection \<open>The application\<close>

text \<open>
  One request: the handler runs in a session of its own, its result or exception
  becomes the response, and the session is closed.
\<close>

definition run_endpoint ::
  "(session \<Rightarrow> (exn + 'a) \<times> session) \<Rightarrow> ('a \<Rightarrow> exn + json) \<Rightarrow> database \<Rightarrow> response \<times> database" where
  "run_endpoint handler serialize db =
     (case handler (get_session db) of
        (Inl e, s) \<Rightarrow> (exception_response e, session_close s)
      | (Inr v, s) \<Rightarrow>
          (case serialize v of
             Inl e \<Rightarrow> (exception_response e, session_close s)
           | Inr j \<Rightarrow> (JSONResponse 200 j, session_close s)))"

definition app :: "pydantic \<Rightarrow> request \<Rightarrow> database \<Rightarrow> response \<times> database" where
  "app L req db =
     (case solve_dependencies L req of
        Inl exc \<Rightarrow>
          (case validation_exception_handler exc of
             Inl e \<Rightarrow> (exception_response e, db)
           | Inr r \<Rightarrow> (r, db))
      | Inr (Call_create_user user) \<Rightarrow> run_endpoint (create_user user) (serialize_User L) db
      | Inr Call_get_users \<Rightarrow>
          run_endpoint get_users
            (\<lambda>rows. case serialize_Rows L rows of Inl e \<Rightarrow> Inl e | Inr js \<Rightarrow> Inr (JArray js)) db
      | Inr (Call_get_user i) \<Rightarrow> run_endpoint (get_user i) (serialize_Row L) db
      | Inr (Call_update_user i user) \<Rightarrow> run_endpoint (update_user i user) (serialize_Row L) db
      | Inr (Call_delete_user i) \<Rightarrow> run_endpoint (delete_user i) serialize_dict db)"

text \<open>
  An instance of the parameters, to run the model on concrete requests: an address is a
  text with an \<open>@\<close>, kept as it is, a text without one is rejected for that reason, and
  an \<open>int\<close> is a decimal numeral with an optional minus sign.
\<close>

definition digit_value :: "char \<Rightarrow> nat option" where
  "digit_value c =
     (let n = (of_char c :: nat) in if 48 \<le> n \<and> n \<le> 57 then Some (n - 48) else None)"

fun decimal :: "string \<Rightarrow> nat \<Rightarrow> nat option" where
  "decimal [] acc = Some acc"
| "decimal (c # cs) acc =
     (case digit_value c of None \<Rightarrow> None | Some d \<Rightarrow> decimal cs (10 * acc + d))"

definition sample_int_parsing :: "string \<Rightarrow> int option" where
  "sample_int_parsing s =
     (case s of
        [] \<Rightarrow> None
      | c # cs \<Rightarrow>
          if c = CHR ''-'' then
            (if cs = [] then None else map_option (\<lambda>n. - int n) (decimal cs 0))
          else map_option int (decimal s 0))"

definition sample_EmailStr :: "string \<Rightarrow> string option" where
  "sample_EmailStr s = (if CHR ''@'' \<in> set s then Some s else None)"

definition sample_pydantic :: pydantic where
  "sample_pydantic =
     \<lparr>EmailStr = sample_EmailStr,
      EmailStr_reason = (\<lambda>s. ''An email address must have an @-sign.''),
      int_parsing = sample_int_parsing\<rparr>"

text \<open>The \<open>{id}\<close> segment and the body that a request carries.\<close>

fun path_id :: "request \<Rightarrow> string option" where
  "path_id (GET_users_id seg) = Some seg"
| "path_id (PUT_users_id seg _) = Some seg"
| "path_id (DELETE_users_id seg) = Some seg"
| "path_id _ = None"


text \<open>The invariant of the data model: ids are unique, and emails are unique.\<close>

definition unique_rows :: "database \<Rightarrow> bool" where
  "unique_rows db \<longleftrightarrow>
     distinct (map Row_id (users db)) \<and> distinct (map Row_email (users db))"

section \<open>Properties\<close>

lemmas request_defs =
  solve_dependencies_def read_body_def body_to_args_def received_json_def
  validate_path_id_def validate_UserCreate_def validate_str_def validate_EmailStr_def
  missing_error_def string_type_error_def dict_get_def dict_of_def dict_set_def errors_of_def

lemmas session_defs =
  get_session_def session_close_def session_execute_def session_add_def session_commit_def
  session_rollback_def session_refresh_def text_sql_def run_sql_def fetchone_def fetchall_def
  INSERT_users_def

lemmas sample_defs =
  sample_pydantic_def sample_EmailStr_def sample_int_parsing_def digit_value_def

subsection \<open>Decoding and rendering\<close>

lemma map_of_map_values:
  "map_of (map (\<lambda>(k', v'). if k' = k then (k', v) else (k', v')) d) x =
     (if x = k then map_option (\<lambda>_. v) (map_of d x) else map_of d x)"
  by (induction d) auto

lemma dict_get_dict_set: "dict_get (dict_set d k v) x = (if x = k then Some v else dict_get d x)"
proof (cases "k \<in> set (map fst d)")
  case True
  then have "k \<in> fst ` set (rev d)" by simp
  then obtain y where "map_of (rev d) k = Some y"
    by (metis domD dom_map_of_conv_image_fst)
  with True show ?thesis
    by (simp add: dict_get_def dict_set_def rev_map map_of_map_values)
next
  case False
  then show ?thesis
    by (simp add: dict_get_def dict_set_def)
qed

lemma dict_get_Cons:
  "dict_get ((k, v) # members) x =
     (case dict_get members x of Some w \<Rightarrow> Some w | None \<Rightarrow> if x = k then Some v else None)"
  by (simp add: dict_get_def map_add_def split: option.splits)

lemma dict_get_foldl_dict_set:
  "dict_get (foldl (\<lambda>d (k, v). dict_set d k v) d members) x =
     (case dict_get members x of Some w \<Rightarrow> Some w | None \<Rightarrow> dict_get d x)"
proof (induction members arbitrary: d)
  case Nil
  then show ?case by (simp add: dict_get_def)
next
  case (Cons m members)
  obtain k v where m: "m = (k, v)" by (cases m)
  show ?case
    by (simp add: m Cons.IH dict_get_dict_set dict_get_Cons split: option.splits)
qed

text \<open>In the \<open>dict\<close>, a key has the value of its last member in the document.\<close>

lemma dict_get_dict_of: "dict_get (dict_of members) x = dict_get members x"
  by (simp add: dict_of_def dict_get_foldl_dict_set) (simp add: dict_get_def split: option.splits)

lemma map_of_map_prod:
  "map_of (map (map_prod id f) xs) k = map_option f (map_of xs k)"
  by (induction xs) auto

lemma dict_get_map_values:
  "dict_get (map (map_prod id f) members) k = map_option f (dict_get members k)"
  by (simp add: dict_get_def rev_map map_of_map_prod)

lemma json_loads_JString_iff: "json_loads x = JString s \<longleftrightarrow> x = JString s"
  by (cases x) auto

lemma dict_get_json_loads:
  "dict_get (dict_of (map (map_prod id json_loads) members)) k =
     map_option json_loads (dict_get members k)"
  by (simp add: dict_get_dict_of dict_get_map_values)

text \<open>What cannot be rendered raises one of two exceptions, and the answer is 500.\<close>

lemma first_error_cases:
  "first_error es = Some e \<Longrightarrow> Some e \<in> set es"
  by (induction es rule: first_error.induct) auto

lemma dumps_error_cases: "dumps_error x = Some e \<Longrightarrow> e = ValueError \<or> e = TypeError"
proof (induction x arbitrary: e)
  case (JArray xs)
  from JArray.prems have "Some e \<in> set (map dumps_error xs)"
    by (auto dest: first_error_cases)
  then obtain y where "y \<in> set xs" and "dumps_error y = Some e"
    by auto
  then show ?case
    by (rule JArray.IH)
next
  case (JObject members)
  from JObject.prems have "Some e \<in> set (map snd (map (map_prod id dumps_error) members))"
    by (auto dest: first_error_cases)
  then obtain k v where "(k, v) \<in> set members" and "dumps_error v = Some e"
    by auto
  with JObject.IH show ?case
    by (auto simp add: snds.simps)
qed auto

lemma exception_response_dumps_error:
  "dumps_error x = Some e \<Longrightarrow>
   exception_response e = PlainTextResponse 500 ''Internal Server Error''"
  by (auto simp add: exception_response_def dest: dumps_error_cases)

subsection \<open>Validation of the fields\<close>

lemma validate_str_Inr_iff: "validate_str loc obj v = Inr s \<longleftrightarrow> v = Some (JString s)"
  by (simp add: validate_str_def split: option.splits json.splits)

lemma validate_str_locs:
  "map err_loc (errors_of (validate_str loc obj v)) =
     (if \<exists>s. v = Some (JString s) then [] else [loc])"
  by (simp add: validate_str_def errors_of_def missing_error_def string_type_error_def
      split: option.splits json.splits)

lemma validate_EmailStr_Inr_iff:
  "validate_EmailStr L loc obj v = Inr e \<longleftrightarrow>
     (\<exists>s. v = Some (JString s) \<and> EmailStr L s = Some e)"
  by (simp add: validate_EmailStr_def split: option.splits json.splits)

lemma validate_EmailStr_locs:
  "map err_loc (errors_of (validate_EmailStr L loc obj v)) =
     (if \<exists>s e. v = Some (JString s) \<and> EmailStr L s = Some e then [] else [loc])"
  by (simp add: validate_EmailStr_def errors_of_def missing_error_def string_type_error_def
      split: option.splits json.splits)

lemma validate_UserCreate_Inr_iff:
  "validate_UserCreate L loc (JObject members) = Inr u \<longleftrightarrow>
     validate_str (loc @ [JString ''name'']) (JObject members) (dict_get members ''name'') =
       Inr (UserCreate_name u) \<and>
     validate_EmailStr L (loc @ [JString ''email'']) (JObject members)
       (dict_get members ''email'') = Inr (UserCreate_email u)"
  by (cases u) (auto simp add: validate_UserCreate_def Let_def split: sum.splits)

lemma validate_UserCreate_errors:
  "errors_of (validate_UserCreate L loc (JObject members)) =
     errors_of (validate_str (loc @ [JString ''name'']) (JObject members)
       (dict_get members ''name'')) @
     errors_of (validate_EmailStr L (loc @ [JString ''email'']) (JObject members)
       (dict_get members ''email''))"
  by (simp add: validate_UserCreate_def Let_def errors_of_def split: sum.splits)

text \<open>
  Whether a document is accepted, and as what, is read off the document itself: the last
  member of a key decides, as in the \<open>dict\<close>.
\<close>

lemma validate_UserCreate_json_loads:
  "validate_UserCreate L loc (json_loads v) = Inr u \<longleftrightarrow> validate_UserCreate L loc v = Inr u"
proof (cases v)
  case (JObject members)
  have "map_option json_loads x = Some (JString s) \<longleftrightarrow> x = Some (JString s)" for x s
    by (cases x) (auto simp add: json_loads_JString_iff)
  then show ?thesis
    by (simp add: JObject validate_UserCreate_Inr_iff validate_str_Inr_iff
        validate_EmailStr_Inr_iff dict_get_json_loads)
qed (simp_all add: validate_UserCreate_def)





text \<open>
  The answer to a request that fails validation: 400 with the errors and the body when
  they can be rendered, 500 when they cannot. The handler of the route is not called and
  the database is as it was.
\<close>

lemma app_validation_failure:
  assumes "solve_dependencies L req = Inl exc"
  shows "app L req db =
     (case dumps_error (JObject [(''detail'', JArray (map error_json (exc_errors exc))),
                                 (''body'', exc_body exc)]) of
        None \<Rightarrow>
          JSONResponse 400
            (JObject [(''detail'', JArray (map error_json (exc_errors exc))),
                      (''body'', exc_body exc)])
      | Some e \<Rightarrow> PlainTextResponse 500 ''Internal Server Error'',
      db)"
  using assms
  by (auto simp add: app_def validation_exception_handler_def new_JSONResponse_def
      exception_response_dumps_error simp del: dumps_error.simps split: option.splits)

lemma app_validation_failure_database:
  "solve_dependencies L req = Inl exc \<Longrightarrow> snd (app L req db) = db"
  by (simp add: app_validation_failure split: option.splits)

subsection \<open>The session and the handlers\<close>

lemma session_close_get_session: "session_close (get_session db) = db"
  by (simp add: session_close_def get_session_def)

lemma filter_Row_id_fresh:
  "i \<notin> set (map Row_id rows) \<Longrightarrow> filter (\<lambda>r. Row_id r = i) rows = []"
  by (induction rows) auto

lemma filter_Row_id_found:
  "i \<in> set (map Row_id rows) \<Longrightarrow> \<exists>r rs. filter (\<lambda>r. Row_id r = i) rows = r # rs"
  by (induction rows) auto

text \<open>A plain string is never executed, whatever it says.\<close>

lemma session_execute_Str: "session_execute (Str q) params s = (Inl ArgumentError, s)"
  by (simp add: session_execute_def)

lemma get_user_ArgumentError: "get_user i s = (Inl ArgumentError, s)"
  by (simp add: get_user_def session_execute_Str)

lemma update_user_ArgumentError: "update_user i user s = (Inl ArgumentError, s)"
  by (simp add: update_user_def session_execute_Str)

text \<open>
  The statements of \<open>update_user\<close> after its lookup could not write either: the row
  found is a \<open>Row\<close>, and the assignment to its attribute raises.
\<close>

lemma update_user_found_AttributeError:
  "update_user_found existing_user user s = (Inl AttributeError, s)"
  by (simp add: update_user_found_def Row_setattr_def)

lemma run_endpoint_get_user:
  "run_endpoint (get_user i) ser db = (PlainTextResponse 500 ''Internal Server Error'', db)"
  by (simp add: run_endpoint_def get_user_ArgumentError exception_response_def
      session_close_get_session)

lemma run_endpoint_update_user:
  "run_endpoint (update_user i user) ser db =
     (PlainTextResponse 500 ''Internal Server Error'', db)"
  by (simp add: run_endpoint_def update_user_ArgumentError exception_response_def
      session_close_get_session)

lemma app_get_user_500:
  "int_parsing L seg = Some i \<Longrightarrow>
   app L (GET_users_id seg) db = (PlainTextResponse 500 ''Internal Server Error'', db)"
  by (simp add: app_def solve_dependencies_def validate_path_id_def run_endpoint_get_user)

lemma app_update_user_500:
  assumes "int_parsing L seg = Some i"
    and "validate_UserCreate L [JString ''body''] v = Inr user"
  shows "app L (PUT_users_id seg (JSON v)) db =
     (PlainTextResponse 500 ''Internal Server Error'', db)"
proof -
  from assms(2) have "validate_UserCreate L [JString ''body''] (json_loads v) = Inr user"
    by (simp add: validate_UserCreate_json_loads)
  with assms(1) show ?thesis
    by (simp add: app_def solve_dependencies_def validate_path_id_def read_body_def
        body_to_args_def run_endpoint_update_user)
qed

text \<open>The insert of \<open>create_user\<close>, when it succeeds and when the email is taken.\<close>

lemma create_user_fresh:
  "seq \<notin> set (map Row_id rows) \<Longrightarrow> UserCreate_email user \<notin> set (map Row_email rows) \<Longrightarrow>
   create_user user (get_session \<lparr>users = rows, users_id_seq = seq\<rparr>) =
     (Inr \<lparr>User_id = Some seq, User_name = UserCreate_name user,
           User_email = UserCreate_email user\<rparr>,
      \<lparr>store = \<lparr>users = rows @ [\<lparr>Row_id = seq, Row_name = UserCreate_name user,
                                   Row_email = UserCreate_email user\<rparr>],
                users_id_seq = seq + 1\<rparr>,
       tx_users = rows @ [\<lparr>Row_id = seq, Row_name = UserCreate_name user,
                           Row_email = UserCreate_email user\<rparr>],
       instances = [\<lparr>User_id = Some seq, User_name = UserCreate_name user,
                     User_email = UserCreate_email user\<rparr>]\<rparr>)"
  by (simp add: create_user_def session_defs filter_Row_id_fresh Let_def)

lemma create_user_violation:
  assumes "users_id_seq db \<in> set (map Row_id (users db)) \<or>
           UserCreate_email user \<in> set (map Row_email (users db))"
  shows "create_user user (get_session db) =
     (Inl (HTTPException 400 ''Error creating user''),
      \<lparr>store = db\<lparr>users_id_seq := users_id_seq db + 1\<rparr>, tx_users = users db,
       instances = []\<rparr>)"
  using assms by (auto simp add: create_user_def session_defs)

text \<open>\<open>delete_user\<close>, whose statements are \<open>text(...)\<close> constructs, finds the row or not.\<close>

lemma delete_user_found:
  assumes "i \<in> set (map Row_id (users db))"
  shows "delete_user i (get_session db) =
     (Inr [(''message'', ''User deleted successfully'')],
      \<lparr>store = \<lparr>users = filter (\<lambda>r. Row_id r \<noteq> i) (users db),
                users_id_seq = users_id_seq db\<rparr>,
       tx_users = filter (\<lambda>r. Row_id r \<noteq> i) (users db), instances = []\<rparr>)"
proof -
  from assms obtain r rs where "filter (\<lambda>r. Row_id r = i) (users db) = r # rs"
    using filter_Row_id_found by blast
  then show ?thesis
    by (simp add: delete_user_def session_defs)
qed

lemma delete_user_missing:
  "i \<notin> set (map Row_id (users db)) \<Longrightarrow>
   delete_user i (get_session db) = (Inl (HTTPException 404 ''User not found''), get_session db)"
  by (simp add: delete_user_def session_defs filter_Row_id_fresh)

lemma app_delete_user_found:
  assumes "int_parsing L seg = Some i" and "i \<in> set (map Row_id (users db))"
  shows "app L (DELETE_users_id seg) db =
     (JSONResponse 200 (JObject [(''message'', JString ''User deleted successfully'')]),
      \<lparr>users = filter (\<lambda>r. Row_id r \<noteq> i) (users db), users_id_seq = users_id_seq db\<rparr>)"
  using assms
  by (simp add: app_def solve_dependencies_def validate_path_id_def run_endpoint_def
      delete_user_found serialize_dict_def session_close_def)

lemma app_delete_user_missing:
  assumes "int_parsing L seg = Some i" and "i \<notin> set (map Row_id (users db))"
  shows "app L (DELETE_users_id seg) db =
     (JSONResponse 404 (JObject [(''detail'', JString ''User not found'')]), db)"
  by (simp add: app_def solve_dependencies_def validate_path_id_def run_endpoint_def
      assms(1) delete_user_missing [OF assms(2)] exception_response_def
      session_close_get_session)

subsection \<open>What a request does to the table\<close>

lemma distinct_filter_one:
  "distinct (map f xs) \<Longrightarrow> a \<in> set (map f xs) \<Longrightarrow> length (filter (\<lambda>x. f x = a) xs) = 1"
proof (induction xs)
  case Nil
  then show ?case by simp
next
  case (Cons x xs)
  show ?case
  proof (cases "f x = a")
    case True
    with Cons.prems have "a \<notin> set (map f xs)" by auto
    then have "filter (\<lambda>x. f x = a) xs = []"
      by (auto simp add: filter_empty_conv)
    with True show ?thesis by simp
  next
    case False
    with Cons show ?thesis by auto
  qed
qed

lemma users_run_create_user:
  "users (snd (run_endpoint (create_user user) ser db)) =
     (if users_id_seq db \<in> set (map Row_id (users db)) \<or>
         UserCreate_email user \<in> set (map Row_email (users db))
      then users db
      else users db @ [\<lparr>Row_id = users_id_seq db, Row_name = UserCreate_name user,
                        Row_email = UserCreate_email user\<rparr>])"
proof (cases "users_id_seq db \<in> set (map Row_id (users db)) \<or>
         UserCreate_email user \<in> set (map Row_email (users db))")
  case True
  then show ?thesis
    by (simp add: run_endpoint_def create_user_violation session_close_def)
next
  case False
  then have "create_user user (get_session db) =
     (Inr \<lparr>User_id = Some (users_id_seq db), User_name = UserCreate_name user,
           User_email = UserCreate_email user\<rparr>,
      \<lparr>store = \<lparr>users = users db @ [\<lparr>Row_id = users_id_seq db,
                                       Row_name = UserCreate_name user,
                                       Row_email = UserCreate_email user\<rparr>],
                users_id_seq = users_id_seq db + 1\<rparr>,
       tx_users = users db @ [\<lparr>Row_id = users_id_seq db, Row_name = UserCreate_name user,
                               Row_email = UserCreate_email user\<rparr>],
       instances = [\<lparr>User_id = Some (users_id_seq db), User_name = UserCreate_name user,
                     User_email = UserCreate_email user\<rparr>]\<rparr>)"
    by (cases db) (simp add: create_user_fresh)
  with False show ?thesis
    by (simp add: run_endpoint_def session_close_def split: sum.splits)
qed

lemma users_run_delete_user:
  "users (snd (run_endpoint (delete_user i) ser db)) = filter (\<lambda>r. Row_id r \<noteq> i) (users db)"
proof (cases "i \<in> set (map Row_id (users db))")
  case True
  then show ?thesis
    by (simp add: run_endpoint_def delete_user_found session_close_def split: sum.splits)
next
  case False
  then have "filter (\<lambda>r. Row_id r \<noteq> i) (users db) = users db"
    by (auto simp add: filter_id_conv)
  with False show ?thesis
    by (simp add: run_endpoint_def delete_user_missing session_close_get_session)
qed

lemma run_endpoint_get_users: "snd (run_endpoint get_users ser db) = db"
  by (simp add: run_endpoint_def get_users_def session_defs split: sum.splits)

text \<open>
  The invariant of the data model, unique ids and unique emails, is kept by every
  request.
\<close>

lemma unique_rows_app:
  assumes "unique_rows db"
  shows "unique_rows (snd (app L req db))"
proof (cases "solve_dependencies L req")
  case (Inl exc)
  with assms show ?thesis by (simp add: app_validation_failure_database)
next
  case (Inr c)
  show ?thesis
  proof (cases c)
    case (Call_create_user user)
    with Inr assms show ?thesis
      by (auto simp add: app_def unique_rows_def users_run_create_user)
  next
    case Call_get_users
    with Inr assms show ?thesis
      by (simp add: app_def run_endpoint_get_users)
  next
    case (Call_get_user i)
    with Inr assms show ?thesis
      by (simp add: app_def run_endpoint_get_user)
  next
    case (Call_update_user i user)
    with Inr assms show ?thesis
      by (simp add: app_def run_endpoint_update_user)
  next
    case (Call_delete_user i)
    with Inr assms show ?thesis
      by (simp add: app_def unique_rows_def users_run_delete_user distinct_map_filter)
  qed
qed

subsection \<open>The claims\<close>

text \<open>
  Claim C1: for a stored user with id \<open>i\<close>, \<open>PUT /api/v1/users/{i}\<close> overwrites the row's
  name and email, commits, and returns the updated row. The code does not: \<open>update_user\<close>
  hands a plain string to \<open>session.execute\<close> (line 100; lines 86, 118 and 123 hand it a
  \<open>text(...)\<close> construct), which raises before any statement is sent
  (\<open>update_user_ArgumentError\<close>, for every id, payload and session), and the exception
  leaves the handler. The statements after the lookup would raise as well
  (\<open>update_user_found_AttributeError\<close>). With the row of Ann stored under id 1, the
  request to rename her is answered with 500 and the row is as it was.
\<close>

theorem update_user_stored_row_500:
  "app sample_pydantic
     (PUT_users_id ''1''
        (JSON (JObject [(''name'', JString ''Bob''), (''email'', JString ''bob@example.com'')])))
     \<lparr>users = [\<lparr>Row_id = 1, Row_name = ''Ann'', Row_email = ''ann@example.com''\<rparr>],
      users_id_seq = 2\<rparr> =
   (PlainTextResponse 500 ''Internal Server Error'',
    \<lparr>users = [\<lparr>Row_id = 1, Row_name = ''Ann'', Row_email = ''ann@example.com''\<rparr>],
     users_id_seq = 2\<rparr>)"
  by (rule app_update_user_500 [where i = 1]) (simp_all add: sample_defs request_defs)

text \<open>
  Claim C2: when a user with some email exists, a second \<open>POST /api/v1/users/\<close> with the
  same email fails with the persistence error (400, \<open>Error creating user\<close>), and exactly
  one row with that email exists afterwards: the failed insert is rolled back and the
  table is as it was before the request. (The id that the failed insert took from the
  sequence is not given back.)
\<close>

theorem create_user_duplicate_email_400:
  assumes "validate_UserCreate L [JString ''body''] v = Inr user"
    and "UserCreate_email user \<in> set (map Row_email (users db))"
    and "unique_rows db"
  shows "\<exists>db'. app L (POST_users (JSON v)) db =
           (JSONResponse 400 (JObject [(''detail'', JString ''Error creating user'')]), db')
         \<and> users db' = users db
         \<and> length (filter (\<lambda>r. Row_email r = UserCreate_email user) (users db')) = 1"
proof -
  from assms(1) have "validate_UserCreate L [JString ''body''] (json_loads v) = Inr user"
    by (simp add: validate_UserCreate_json_loads)
  then have "app L (POST_users (JSON v)) db =
      (JSONResponse 400 (JObject [(''detail'', JString ''Error creating user'')]),
       db\<lparr>users_id_seq := users_id_seq db + 1\<rparr>)"
    using assms(2)
    by (simp add: app_def solve_dependencies_def read_body_def body_to_args_def run_endpoint_def
        create_user_violation exception_response_def session_close_def)
  moreover have "length (filter (\<lambda>r. Row_email r = UserCreate_email user) (users db)) = 1"
    using assms(2,3) by (simp add: unique_rows_def distinct_filter_one)
  ultimately show ?thesis by simp
qed

theorem create_user_duplicate_email_400_witness:
  "validate_UserCreate sample_pydantic [JString ''body'']
     (JObject [(''name'', JString ''Bob''), (''email'', JString ''ann@example.com'')]) =
     Inr \<lparr>UserCreate_name = ''Bob'', UserCreate_email = ''ann@example.com''\<rparr>
   \<and> ''ann@example.com'' \<in> set (map Row_email
        [\<lparr>Row_id = 1, Row_name = ''Ann'', Row_email = ''ann@example.com''\<rparr>])
   \<and> unique_rows
        \<lparr>users = [\<lparr>Row_id = 1, Row_name = ''Ann'', Row_email = ''ann@example.com''\<rparr>],
         users_id_seq = 2\<rparr>
   \<and> app sample_pydantic
        (POST_users
          (JSON (JObject [(''name'', JString ''Bob''), (''email'', JString ''ann@example.com'')])))
        \<lparr>users = [\<lparr>Row_id = 1, Row_name = ''Ann'', Row_email = ''ann@example.com''\<rparr>],
         users_id_seq = 2\<rparr> =
      (JSONResponse 400 (JObject [(''detail'', JString ''Error creating user'')]),
       \<lparr>users = [\<lparr>Row_id = 1, Row_name = ''Ann'', Row_email = ''ann@example.com''\<rparr>],
        users_id_seq = 3\<rparr>)"
proof -
  have h1: "validate_UserCreate sample_pydantic [JString ''body'']
     (JObject [(''name'', JString ''Bob''), (''email'', JString ''ann@example.com'')]) =
     Inr \<lparr>UserCreate_name = ''Bob'', UserCreate_email = ''ann@example.com''\<rparr>"
    by (simp add: request_defs sample_defs)
  have h2: "UserCreate_email \<lparr>UserCreate_name = ''Bob'', UserCreate_email = ''ann@example.com''\<rparr>
      \<in> set (map Row_email
        (users \<lparr>users = [\<lparr>Row_id = 1, Row_name = ''Ann'', Row_email = ''ann@example.com''\<rparr>],
                 users_id_seq = 2\<rparr>))"
    by simp
  have h3: "unique_rows
        \<lparr>users = [\<lparr>Row_id = 1, Row_name = ''Ann'', Row_email = ''ann@example.com''\<rparr>],
         users_id_seq = 2\<rparr>"
    by (simp add: unique_rows_def)
  show ?thesis
    using h1 h3 create_user_duplicate_email_400 [OF h1 h2 h3]
    by (simp add: app_def request_defs sample_defs run_endpoint_def create_user_def
        session_defs exception_response_def)
qed

text \<open>
  A create payload whose email is a text that is no valid address fails validation with
  an entry for the field \<open>email\<close>; no handler is called and the database is as it was.
  The answer is 400 when the errors and the payload can be rendered.
\<close>

lemma app_invalid_email:
  assumes "dict_get members ''email'' = Some (JString s)" and "EmailStr L s = None"
  shows "\<exists>exc. solve_dependencies L (POST_users (JSON (JObject members))) = Inl exc
         \<and> exc_body exc = json_loads (JObject members)
         \<and> \<lparr>err_type = ''value_error'', err_loc = [JString ''body'', JString ''email''],
              err_msg = ''value is not a valid email address: '' @ EmailStr_reason L s,
              err_input = JString s,
              err_ctx = Some [(''reason'', JString (EmailStr_reason L s))]\<rparr>
             \<in> set (exc_errors exc)
         \<and> snd (app L (POST_users (JSON (JObject members))) db) = db
         \<and> (dumps_error (JObject [(''detail'', JArray (map error_json (exc_errors exc))),
                                   (''body'', exc_body exc)]) = None \<longrightarrow>
            app L (POST_users (JSON (JObject members))) db =
              (JSONResponse 400
                 (JObject [(''detail'', JArray (map error_json (exc_errors exc))),
                           (''body'', exc_body exc)]),
               db))"
proof -
  let ?d = "dict_of (map (map_prod id json_loads) members)"
  let ?er = "\<lparr>err_type = ''value_error'', err_loc = [JString ''body'', JString ''email''],
              err_msg = ''value is not a valid email address: '' @ EmailStr_reason L s,
              err_input = JString s,
              err_ctx = Some [(''reason'', JString (EmailStr_reason L s))]\<rparr>"
  from assms(1) have "dict_get ?d ''email'' = Some (JString s)"
    by (simp add: dict_get_json_loads)
  with assms(2) have
    "validate_EmailStr L [JString ''body'', JString ''email''] (JObject ?d)
       (dict_get ?d ''email'') = Inl [?er]"
    by (simp add: validate_EmailStr_def)
  then have "\<exists>es. validate_UserCreate L [JString ''body''] (JObject ?d) = Inl es \<and> ?er \<in> set es"
    by (auto simp add: validate_UserCreate_def Let_def errors_of_def split: sum.splits)
  then obtain es where es: "validate_UserCreate L [JString ''body''] (JObject ?d) = Inl es"
    and mem: "?er \<in> set es"
    by blast
  let ?exc = "\<lparr>exc_errors = es, exc_body = JObject ?d\<rparr>"
  have solve: "solve_dependencies L (POST_users (JSON (JObject members))) = Inl ?exc"
    using es
    by (simp add: solve_dependencies_def read_body_def body_to_args_def received_json_def)
  show ?thesis
    using mem app_validation_failure [OF solve, of db]
    by (intro exI [of _ ?exc]) (simp add: solve del: dumps_error.simps)
qed

text \<open>
  Claim C3: every create payload whose email is no valid address is answered with the
  validation error, 400 with an entry for the field, and nothing is stored. The code
  stores nothing (\<open>app_invalid_email\<close>), but the answer is 500 where the payload holds
  what \<open>JSONResponse\<close> cannot render: the handler of the validation errors (lines 62 to
  67) puts \<open>exc.body\<close> into the response as it is and raises. Here the payload has the
  address \<open>ann.example.com\<close> and a member \<open>x\<close> that is \<open>NaN\<close>.
\<close>

theorem create_invalid_email_NaN_500:
  "app sample_pydantic
     (POST_users
       (JSON (JObject [(''name'', JString ''Ann''), (''email'', JString ''ann.example.com''),
                       (''x'', JNaN)])))
     \<lparr>users = [], users_id_seq = 1\<rparr> =
   (PlainTextResponse 500 ''Internal Server Error'', \<lparr>users = [], users_id_seq = 1\<rparr>)"
  by (simp add: app_def request_defs sample_defs validation_exception_handler_def
      new_JSONResponse_def error_json_def exception_response_def)

theorem validate_UserCreate_accepts_empty_name:
  "validate_UserCreate sample_pydantic [JString ''body'']
     (JObject [(''name'', JString []), (''email'', JString ''a@x.com'')]) =
   Inr \<lparr>UserCreate_name = [], UserCreate_email = ''a@x.com''\<rparr>
   \<and> app sample_pydantic
       (POST_users (JSON (JObject [(''name'', JString []), (''email'', JString ''a@x.com'')])))
       \<lparr>users = [], users_id_seq = 1\<rparr> =
     (JSONResponse 200
        (JObject [(''id'', JNumber 1), (''name'', JString []), (''email'', JString ''a@x.com'')]),
      \<lparr>users = [\<lparr>Row_id = 1, Row_name = [], Row_email = ''a@x.com''\<rparr>], users_id_seq = 2\<rparr>)"
  by (simp add: sample_defs request_defs app_def run_endpoint_def create_user_fresh
      session_close_def serialize_User_def validate_UserResponse_def UserResponse_json_def)

text \<open>
  Claim C4, as the code has it: the validation of a create payload requires \<open>name\<close> to be
  present and a text, which may be empty, and \<open>email\<close> to be a text that is a valid
  address. A payload is accepted exactly when both hold, and the result carries the name
  as it was sent. The errors of a payload have an entry for \<open>name\<close> exactly when \<open>name\<close> is
  missing or no text, and an entry for \<open>email\<close> exactly when \<open>email\<close> is missing, no text
  or no valid address: every field with a problem is reported, not only the first.
\<close>

theorem validate_UserCreate_reports_each_field:
  "(validate_UserCreate L loc (JObject members) = Inr u \<longleftrightarrow>
      dict_get members ''name'' = Some (JString (UserCreate_name u)) \<and>
      (\<exists>s. dict_get members ''email'' = Some (JString s) \<and>
           EmailStr L s = Some (UserCreate_email u)))
   \<and> (loc @ [JString ''name'']
         \<in> set (map err_loc (errors_of (validate_UserCreate L loc (JObject members)))) \<longleftrightarrow>
       (\<forall>s. dict_get members ''name'' \<noteq> Some (JString s)))
   \<and> (loc @ [JString ''email'']
         \<in> set (map err_loc (errors_of (validate_UserCreate L loc (JObject members)))) \<longleftrightarrow>
       (\<forall>s e. \<not> (dict_get members ''email'' = Some (JString s) \<and> EmailStr L s = Some e)))"
proof (intro conjI)
  show "validate_UserCreate L loc (JObject members) = Inr u \<longleftrightarrow>
      dict_get members ''name'' = Some (JString (UserCreate_name u)) \<and>
      (\<exists>s. dict_get members ''email'' = Some (JString s) \<and>
           EmailStr L s = Some (UserCreate_email u))"
    by (simp add: validate_UserCreate_Inr_iff validate_str_Inr_iff validate_EmailStr_Inr_iff)
  have locs: "map err_loc (errors_of (validate_UserCreate L loc (JObject members))) =
      (if \<exists>s. dict_get members ''name'' = Some (JString s) then []
       else [loc @ [JString ''name'']]) @
      (if \<exists>s e. dict_get members ''email'' = Some (JString s) \<and> EmailStr L s = Some e then []
       else [loc @ [JString ''email'']])"
    by (simp only: validate_UserCreate_errors map_append validate_str_locs
        validate_EmailStr_locs)
  show "loc @ [JString ''name'']
         \<in> set (map err_loc (errors_of (validate_UserCreate L loc (JObject members)))) \<longleftrightarrow>
       (\<forall>s. dict_get members ''name'' \<noteq> Some (JString s))"
    by (simp add: locs)
  show "loc @ [JString ''email'']
         \<in> set (map err_loc (errors_of (validate_UserCreate L loc (JObject members)))) \<longleftrightarrow>
       (\<forall>s e. \<not> (dict_get members ''email'' = Some (JString s) \<and> EmailStr L s = Some e))"
    by (simp add: locs)
qed

theorem validate_UserCreate_reports_each_field_witness:
  "validate_UserCreate sample_pydantic [JString ''body'']
     (JObject [(''name'', JNumber 3), (''email'', JString ''ax.com'')]) =
     Inl [\<lparr>err_type = ''string_type'', err_loc = [JString ''body'', JString ''name''],
           err_msg = ''Input should be a valid string'', err_input = JNumber 3,
           err_ctx = None\<rparr>,
          \<lparr>err_type = ''value_error'', err_loc = [JString ''body'', JString ''email''],
           err_msg = ''value is not a valid email address: An email address must have an @-sign.'',
           err_input = JString ''ax.com'',
           err_ctx = Some [(''reason'', JString ''An email address must have an @-sign.'')]\<rparr>]
   \<and> [JString ''body''] @ [JString ''name'']
       \<in> set (map err_loc (errors_of (validate_UserCreate sample_pydantic [JString ''body'']
            (JObject [(''name'', JNumber 3), (''email'', JString ''ax.com'')]))))
   \<and> [JString ''body''] @ [JString ''email'']
       \<in> set (map err_loc (errors_of (validate_UserCreate sample_pydantic [JString ''body'']
            (JObject [(''name'', JNumber 3), (''email'', JString ''ax.com'')]))))"
  using validate_UserCreate_reports_each_field
    [of sample_pydantic "[JString ''body'']" "[(''name'', JNumber 3), (''email'', JString ''ax.com'')]"]
  by (simp add: request_defs sample_defs)

text \<open>
  Claim C5: \<open>GET /api/v1/users/{id}\<close> returns the stored row with 200 when a row with that
  id exists, and 404 when none does. The code does neither: \<open>get_user\<close> hands a plain
  string to \<open>session.execute\<close> (line 92), which raises (\<open>get_user_ArgumentError\<close>, for
  every id and session), so every request with an integer id is answered with 500
  (\<open>app_get_user_500\<close>). Here: for the stored id 1, and for the id 5 that was never
  created. The same lookup in \<open>delete_user\<close>, a \<open>text(...)\<close> construct with a bound
  parameter, does answer 404 for a missing row (\<open>app_delete_user_missing\<close>).
\<close>

theorem get_user_stored_row_500:
  "app sample_pydantic (GET_users_id ''1'')
     \<lparr>users = [\<lparr>Row_id = 1, Row_name = ''Ann'', Row_email = ''ann@example.com''\<rparr>],
      users_id_seq = 2\<rparr> =
   (PlainTextResponse 500 ''Internal Server Error'',
    \<lparr>users = [\<lparr>Row_id = 1, Row_name = ''Ann'', Row_email = ''ann@example.com''\<rparr>],
     users_id_seq = 2\<rparr>)
   \<and> app sample_pydantic (GET_users_id ''5'')
     \<lparr>users = [\<lparr>Row_id = 1, Row_name = ''Ann'', Row_email = ''ann@example.com''\<rparr>],
      users_id_seq = 2\<rparr> =
   (PlainTextResponse 500 ''Internal Server Error'',
    \<lparr>users = [\<lparr>Row_id = 1, Row_name = ''Ann'', Row_email = ''ann@example.com''\<rparr>],
     users_id_seq = 2\<rparr>)"
  by (simp add: app_get_user_500 [where i = 1] app_get_user_500 [where i = 5] sample_defs)

text \<open>
  Claim C6: a successful create followed by \<open>GET\<close> on the returned id yields the same
  name and email. The create of the spec's example succeeds and stores the row under
  id 1; the \<open>GET\<close> of that id is answered with 500, for the reason given at C5.
\<close>

theorem create_then_get_user_500:
  "app sample_pydantic
     (POST_users (JSON (JObject [(''name'', JString ''A''), (''email'', JString ''a@x.com'')])))
     \<lparr>users = [], users_id_seq = 1\<rparr> =
   (JSONResponse 200
      (JObject [(''id'', JNumber 1), (''name'', JString ''A''), (''email'', JString ''a@x.com'')]),
    \<lparr>users = [\<lparr>Row_id = 1, Row_name = ''A'', Row_email = ''a@x.com''\<rparr>], users_id_seq = 2\<rparr>)
   \<and> app sample_pydantic (GET_users_id ''1'')
     \<lparr>users = [\<lparr>Row_id = 1, Row_name = ''A'', Row_email = ''a@x.com''\<rparr>], users_id_seq = 2\<rparr> =
   (PlainTextResponse 500 ''Internal Server Error'',
    \<lparr>users = [\<lparr>Row_id = 1, Row_name = ''A'', Row_email = ''a@x.com''\<rparr>], users_id_seq = 2\<rparr>)"
proof (rule conjI)
  show "app sample_pydantic
     (POST_users (JSON (JObject [(''name'', JString ''A''), (''email'', JString ''a@x.com'')])))
     \<lparr>users = [], users_id_seq = 1\<rparr> =
   (JSONResponse 200
      (JObject [(''id'', JNumber 1), (''name'', JString ''A''), (''email'', JString ''a@x.com'')]),
    \<lparr>users = [\<lparr>Row_id = 1, Row_name = ''A'', Row_email = ''a@x.com''\<rparr>], users_id_seq = 2\<rparr>)"
    by (simp add: sample_defs request_defs app_def run_endpoint_def create_user_fresh
        session_close_def serialize_User_def validate_UserResponse_def UserResponse_json_def)
  show "app sample_pydantic (GET_users_id ''1'')
     \<lparr>users = [\<lparr>Row_id = 1, Row_name = ''A'', Row_email = ''a@x.com''\<rparr>], users_id_seq = 2\<rparr> =
   (PlainTextResponse 500 ''Internal Server Error'',
    \<lparr>users = [\<lparr>Row_id = 1, Row_name = ''A'', Row_email = ''a@x.com''\<rparr>], users_id_seq = 2\<rparr>)"
    by (rule app_get_user_500 [where i = 1]) (simp add: sample_defs)
qed

text \<open>
  Claim C7: for a stored user with id \<open>i\<close>, a successful \<open>DELETE /api/v1/users/{i}\<close>
  followed by \<open>GET /api/v1/users/{i}\<close> returns 404. The delete answers 200 with the
  message and removes the row (\<open>app_delete_user_found\<close>); the \<open>GET\<close> that follows is
  answered with 500, for the reason given at C5.
\<close>

theorem delete_then_get_user_500:
  "app sample_pydantic (DELETE_users_id ''1'')
     \<lparr>users = [\<lparr>Row_id = 1, Row_name = ''Ann'', Row_email = ''ann@example.com''\<rparr>],
      users_id_seq = 2\<rparr> =
   (JSONResponse 200 (JObject [(''message'', JString ''User deleted successfully'')]),
    \<lparr>users = [], users_id_seq = 2\<rparr>)
   \<and> app sample_pydantic (GET_users_id ''1'') \<lparr>users = [], users_id_seq = 2\<rparr> =
   (PlainTextResponse 500 ''Internal Server Error'', \<lparr>users = [], users_id_seq = 2\<rparr>)"
proof (rule conjI)
  have "int_parsing sample_pydantic ''1'' = Some 1"
    by (simp add: sample_defs)
  then show "app sample_pydantic (DELETE_users_id ''1'')
     \<lparr>users = [\<lparr>Row_id = 1, Row_name = ''Ann'', Row_email = ''ann@example.com''\<rparr>],
      users_id_seq = 2\<rparr> =
   (JSONResponse 200 (JObject [(''message'', JString ''User deleted successfully'')]),
    \<lparr>users = [], users_id_seq = 2\<rparr>)"
    by (simp add: app_delete_user_found [where i = 1])
  show "app sample_pydantic (GET_users_id ''1'') \<lparr>users = [], users_id_seq = 2\<rparr> =
   (PlainTextResponse 500 ''Internal Server Error'', \<lparr>users = [], users_id_seq = 2\<rparr>)"
    by (rule app_get_user_500 [where i = 1]) (simp add: sample_defs)
qed

text \<open>
  Claim C8: for an id with no matching row, \<open>PUT /api/v1/users/{id}\<close> returns 404 and
  writes nothing. The code writes nothing, but the answer is 500, not 404: the lookup
  of \<open>update_user\<close> raises as at C1 before the check for a missing row is reached. Here
  for the id 7, with the only stored row under id 1.
\<close>

theorem update_user_missing_row_500:
  "app sample_pydantic
     (PUT_users_id ''7''
        (JSON (JObject [(''name'', JString ''Bob''), (''email'', JString ''bob@example.com'')])))
     \<lparr>users = [\<lparr>Row_id = 1, Row_name = ''Ann'', Row_email = ''ann@example.com''\<rparr>],
      users_id_seq = 2\<rparr> =
   (PlainTextResponse 500 ''Internal Server Error'',
    \<lparr>users = [\<lparr>Row_id = 1, Row_name = ''Ann'', Row_email = ''ann@example.com''\<rparr>],
     users_id_seq = 2\<rparr>)"
  by (rule app_update_user_500 [where i = 7]) (simp_all add: sample_defs request_defs)

text \<open>
  A request whose \<open>{id}\<close> segment does not parse as an integer fails validation: no
  handler is called and the database is as it was. A \<open>GET\<close> or a \<open>DELETE\<close> is answered
  with 400.
\<close>

lemma solve_dependencies_path_id_not_int:
  assumes "path_id req = Some seg" and "int_parsing L seg = None"
  shows "\<exists>exc. solve_dependencies L req = Inl exc"
proof (cases req)
  case (PUT_users_id seg' b)
  with assms show ?thesis
    by (cases b)
      (simp_all add: solve_dependencies_def validate_path_id_def read_body_def Let_def)
qed (use assms in \<open>simp_all add: solve_dependencies_def validate_path_id_def\<close>)

lemma app_path_id_not_int_database:
  assumes "path_id req = Some seg" and "int_parsing L seg = None"
  shows "snd (app L req db) = db"
  using solve_dependencies_path_id_not_int [OF assms] app_validation_failure_database
  by blast

lemma app_get_delete_path_id_not_int:
  assumes "int_parsing L seg = None"
  shows "app L (GET_users_id seg) db =
      (JSONResponse 400
         (JObject [(''detail'', JArray [JObject [(''type'', JString ''int_parsing''),
              (''loc'', JArray [JString ''path'', JString ''id'']),
              (''msg'', JString
                ''Input should be a valid integer, unable to parse string as an integer''),
              (''input'', JString seg)]]),
            (''body'', JNull)]),
       db)"
    and "app L (DELETE_users_id seg) db =
      (JSONResponse 400
         (JObject [(''detail'', JArray [JObject [(''type'', JString ''int_parsing''),
              (''loc'', JArray [JString ''path'', JString ''id'']),
              (''msg'', JString
                ''Input should be a valid integer, unable to parse string as an integer''),
              (''input'', JString seg)]]),
            (''body'', JNull)]),
       db)"
  using assms
  by (simp_all add: app_def solve_dependencies_def validate_path_id_def
      validation_exception_handler_def new_JSONResponse_def error_json_def)

text \<open>
  Claim C9: every \<open>GET\<close>, \<open>PUT\<close> or \<open>DELETE\<close> request to \<open>/api/v1/users/{id}\<close> whose \<open>{id}\<close>
  segment does not parse as an integer is answered with the validation error, status
  400, and the handler is not entered. The handler is not entered and a \<open>GET\<close> or \<open>DELETE\<close>
  is answered with 400 (\<open>app_path_id_not_int_database\<close>,
  \<open>app_get_delete_path_id_not_int\<close>), but a \<open>PUT\<close> is answered with 500 where its body
  cannot be rendered: the handler of the validation errors (lines 62 to 67) puts
  \<open>exc.errors()\<close> and \<open>exc.body\<close> into the response as they are and raises. Here for a
  form body, which is kept as \<open>bytes\<close>, and for a JSON body with a \<open>NaN\<close>.
\<close>

theorem put_path_id_not_int_500:
  "app sample_pydantic (PUT_users_id ''abc'' (NonJSON ''name=Bob''))
     \<lparr>users = [], users_id_seq = 1\<rparr> =
   (PlainTextResponse 500 ''Internal Server Error'', \<lparr>users = [], users_id_seq = 1\<rparr>)
   \<and> app sample_pydantic (PUT_users_id ''abc'' (JSON (JObject [(''name'', JNaN)])))
     \<lparr>users = [], users_id_seq = 1\<rparr> =
   (PlainTextResponse 500 ''Internal Server Error'', \<lparr>users = [], users_id_seq = 1\<rparr>)"
  by (simp add: app_def request_defs sample_defs validation_exception_handler_def
      new_JSONResponse_def error_json_def exception_response_def)




end
